theory Spec2Isabelle
  imports Complex_Main
begin

section \<open>JavaScript values\<close>

text \<open>
  A JavaScript \<^verbatim>\<open>number\<close> is kept as a real or as \<^verbatim>\<open>NaN\<close>; the client never
  computes with numbers, it only tests them for truthiness and forwards them.
  Strings are byte strings.
\<close>

datatype number = Num real | NaN

datatype jsval =
    JUndefined
  | JNull
  | JBool bool
  | JNumber number
  | JStr string
  | JArr "jsval list"
  | JObj "(string \<times> jsval) list"

text \<open>Truthiness, as \<^verbatim>\<open>if (x)\<close>, \<^verbatim>\<open>x || d\<close> and \<^verbatim>\<open>x ? a : b\<close> test it.\<close>

fun truthy :: "jsval \<Rightarrow> bool" where
  "truthy JUndefined = False"
| "truthy JNull = False"
| "truthy (JBool b) = b"
| "truthy (JNumber (Num r)) = (r \<noteq> 0)"
| "truthy (JNumber NaN) = False"
| "truthy (JStr s) = (s \<noteq> [])"
| "truthy (JArr xs) = True"
| "truthy (JObj kvs) = True"

text \<open>
  An optional argument is \<open>None\<close> when it is \<^verbatim>\<open>undefined\<close>. A default parameter value
  \<^verbatim>\<open>p: T = d\<close> replaces \<^verbatim>\<open>undefined\<close> only.
\<close>

definition param_default :: "'a \<Rightarrow> 'a option \<Rightarrow> 'a" where
  "param_default d x = (case x of None \<Rightarrow> d | Some v \<Rightarrow> v)"

text \<open>
  What a \<^verbatim>\<open>throw\<close> carries: a \<^verbatim>\<open>CueMapError\<close> with its message, or any other error
  object with its name and message (\<^verbatim>\<open>TypeError\<close>, \<^verbatim>\<open>SyntaxError\<close>, \<^verbatim>\<open>AbortError\<close>).
  \<^verbatim>\<open>error instanceof CueMapError\<close> is the test on the constructor.
\<close>

datatype thrown = CueMapError string | OtherError string string

fun instanceof_CueMapError :: "thrown \<Rightarrow> bool" where
  "instanceof_CueMapError (CueMapError m) = True"
| "instanceof_CueMapError (OtherError n m) = False"

text \<open>
  The text of \<^verbatim>\<open>${error}\<close>: \<^verbatim>\<open>Error.prototype.toString\<close> gives the name, the
  message, or both joined by a colon. The constructor of \<^verbatim>\<open>CueMapError\<close> sets the
  name \<^verbatim>\<open>'CueMapError'\<close>.
\<close>

definition error_toString_parts :: "string \<Rightarrow> string \<Rightarrow> string" where
  "error_toString_parts name msg =
     (if name = [] then msg else if msg = [] then name else name @ '': '' @ msg)"

fun error_toString :: "thrown \<Rightarrow> string" where
  "error_toString (CueMapError m) = error_toString_parts ''CueMapError'' m"
| "error_toString (OtherError n m) = error_toString_parts n m"

text \<open>The decimal text of \<^verbatim>\<open>${response.status}\<close>.\<close>

definition digit_char :: "nat \<Rightarrow> char" where
  "digit_char n = ''0123456789'' ! (n mod 10)"

function string_of_nat :: "nat \<Rightarrow> string" where
  "string_of_nat n =
     (if n < 10 then [digit_char n] else string_of_nat (n div 10) @ [digit_char (n mod 10)])"
  by pat_completeness auto
termination
  by (relation "measure id") auto

declare string_of_nat.simps [simp del]

text \<open>
  Property access \<^verbatim>\<open>v.k\<close> for the keys the client reads (\<^verbatim>\<open>id\<close>,
  \<^verbatim>\<open>verified_context\<close>, \<^verbatim>\<open>proof\<close>, \<^verbatim>\<open>selected\<close>; none of them is a built-in
  property of a string, a number, a boolean or an array): a \<^verbatim>\<open>TypeError\<close> on
  \<^verbatim>\<open>undefined\<close> and \<^verbatim>\<open>null\<close>, the value or \<^verbatim>\<open>undefined\<close> otherwise.
\<close>

fun get_prop :: "jsval \<Rightarrow> string \<Rightarrow> thrown + jsval" where
  "get_prop JUndefined k =
     Inl (OtherError ''TypeError''
            (''Cannot read properties of undefined (reading '' @ [CHR 0x27] @ k @ [CHR 0x27] @ '')''))"
| "get_prop JNull k =
     Inl (OtherError ''TypeError''
            (''Cannot read properties of null (reading '' @ [CHR 0x27] @ k @ [CHR 0x27] @ '')''))"
| "get_prop (JObj kvs) k = Inr (case map_of kvs k of None \<Rightarrow> JUndefined | Some v \<Rightarrow> v)"
| "get_prop (JBool b) k = Inr JUndefined"
| "get_prop (JNumber n) k = Inr JUndefined"
| "get_prop (JStr s) k = Inr JUndefined"
| "get_prop (JArr xs) k = Inr JUndefined"

section \<open>Configuration and client object\<close>

record CueMapConfig =
  config_url :: "string option"
  config_apiKey :: "string option"
  config_projectId :: "string option"
  config_timeout :: "number option"

record CueMap =
  url :: string
  apiKey :: "string option"
  projectId :: "string option"
  timeout :: number

text \<open>
  The constructor. \<^verbatim>\<open>config.url || 'http://localhost:8080'\<close> takes the default
  whenever the left side is falsy: \<^verbatim>\<open>undefined\<close>, and also the empty string; likewise
  \<^verbatim>\<open>config.timeout || 30000\<close> for \<^verbatim>\<open>undefined\<close>, \<^verbatim>\<open>0\<close> and \<^verbatim>\<open>NaN\<close>.
\<close>

definition or_else_str :: "string option \<Rightarrow> string \<Rightarrow> string" where
  "or_else_str x d = (case x of None \<Rightarrow> d | Some s \<Rightarrow> if truthy (JStr s) then s else d)"

definition or_else_num :: "number option \<Rightarrow> number \<Rightarrow> number" where
  "or_else_num x d = (case x of None \<Rightarrow> d | Some n \<Rightarrow> if truthy (JNumber n) then n else d)"

definition constructor :: "CueMapConfig \<Rightarrow> CueMap" where
  "constructor config =
     \<lparr> url = or_else_str (config_url config) ''http://localhost:8080'',
       apiKey = config_apiKey config,
       projectId = config_projectId config,
       timeout = or_else_num (config_timeout config) (Num 30000) \<rparr>"

text \<open>\<^verbatim>\<open>new CueMap()\<close>: the parameter defaults to \<^verbatim>\<open>{}\<close>.\<close>

definition empty_config :: CueMapConfig where
  "empty_config =
     \<lparr> config_url = None, config_apiKey = None, config_projectId = None,
       config_timeout = None \<rparr>"

section \<open>Runtime state\<close>

text \<open>
  What a call can touch: the client object (\<^verbatim>\<open>this\<close>), the pending timers of the
  runtime, the requests handed to \<^verbatim>\<open>fetch\<close>, and the requests whose abort signal
  has fired.
\<close>

datatype req_body = NoBody | JsonBody jsval | FormDataBody "(string \<times> string) list"

record fetch_call =
  http_method :: string
  req_url :: string
  headers :: "(string \<times> string) list"
  body :: req_body

record state =
  self :: CueMap
  timers :: "nat list"
  next_timer :: nat
  outbox :: "fetch_call list"
  aborted :: "fetch_call list"

definition setTimeout :: "state \<Rightarrow> nat \<times> state" where
  "setTimeout s =
     (next_timer s, s\<lparr>timers := timers s @ [next_timer s], next_timer := Suc (next_timer s)\<rparr>)"

definition clearTimeout :: "nat \<Rightarrow> state \<Rightarrow> state" where
  "clearTimeout tid s = s\<lparr>timers := removeAll tid (timers s)\<rparr>"

text \<open>
  The remote side of one call: the response arrives after some time, the transport
  rejects after some time, or nothing ever happens. A response has its status and the
  outcome of \<^verbatim>\<open>response.json()\<close>.
\<close>

record response =
  status :: nat
  json :: "thrown + jsval"

definition ok :: "response \<Rightarrow> bool" where
  "ok r = (200 \<le> status r \<and> status r \<le> 299)"

datatype fetch_result = Responded real response | Rejected real thrown | NeverSettles

text \<open>
  The delay of a timer: a negative or \<^verbatim>\<open>NaN\<close> delay counts as zero. Delays beyond
  the 31-bit range of the runtime's timers, which fire early, are not distinguished.
\<close>

fun timer_delay :: "number \<Rightarrow> real" where
  "timer_delay (Num r) = (if r < 0 then 0 else r)"
| "timer_delay NaN = 0"

text \<open>
  The timer callback \<^verbatim>\<open>() => controller.abort()\<close>: the timer is spent, the signal
  of the call fires, and \<^verbatim>\<open>fetch\<close> rejects with the runtime's abort error.
\<close>

definition abort_error :: thrown where
  "abort_error = OtherError ''AbortError'' ''This operation was aborted''"

definition timer_fires :: "fetch_call \<Rightarrow> nat \<Rightarrow> state \<Rightarrow> (thrown + response) \<times> state" where
  "timer_fires call tid s =
     (Inl abort_error, s\<lparr>timers := removeAll tid (timers s), aborted := aborted s @ [call]\<rparr>)"

text \<open>
  \<^verbatim>\<open>await fetch(url, {method, headers, body, signal})\<close> with the timer \<open>tid\<close> of
  delay \<open>d\<close> running: the call is handed to the transport; what settles first decides.
  The timer was started before the call, so it wins a tie.
\<close>

definition fetch :: "fetch_call \<Rightarrow> nat \<Rightarrow> real \<Rightarrow> fetch_result \<Rightarrow> state \<Rightarrow> (thrown + response) \<times> state" where
  "fetch call tid d env s =
     (let s1 = s\<lparr>outbox := outbox s @ [call]\<rparr> in
      case env of
        Responded t r \<Rightarrow> if t < d then (Inr r, s1) else timer_fires call tid s1
      | Rejected t e \<Rightarrow> if t < d then (Inl e, s1) else timer_fires call tid s1
      | NeverSettles \<Rightarrow> timer_fires call tid s1)"

section \<open>Transport: getHeaders and request\<close>

definition getHeaders :: "state \<Rightarrow> (string \<times> string) list" where
  "getHeaders s =
     [(''Content-Type'', ''application/json'')]
     @ (case apiKey (self s) of
          None \<Rightarrow> []
        | Some k \<Rightarrow> if truthy (JStr k) then [(''X-API-Key'', k)] else [])
     @ (case projectId (self s) of
          None \<Rightarrow> []
        | Some p \<Rightarrow> if truthy (JStr p) then [(''X-Project-ID'', p)] else [])"

text \<open>The \<^verbatim>\<open>try\<close> block of \<^verbatim>\<open>request\<close>, with the timer already started.\<close>

definition request_try ::
  "string \<Rightarrow> string \<Rightarrow> jsval \<Rightarrow> nat \<Rightarrow> fetch_result \<Rightarrow> state \<Rightarrow> (thrown + jsval) \<times> state" where
  "request_try meth path b tid env s =
     (case fetch \<lparr> http_method = meth, req_url = url (self s) @ path,
                   headers = getHeaders s,
                   body = (if truthy b then JsonBody b else NoBody) \<rparr>
                 tid (timer_delay (timeout (self s))) env s of
        (Inl e, s1) \<Rightarrow> (Inl e, s1)
      | (Inr r, s1) \<Rightarrow>
          (let s2 = clearTimeout tid s1 in
           if \<not> ok r then
             (if status r = 401 then (Inl (CueMapError ''Invalid API key''), s2)
              else (Inl (CueMapError (''Request failed: '' @ string_of_nat (status r))), s2))
           else (json r, s2)))"

text \<open>The \<^verbatim>\<open>catch\<close> block of \<^verbatim>\<open>request\<close>.\<close>

definition request_catch :: "nat \<Rightarrow> thrown \<Rightarrow> state \<Rightarrow> (thrown + jsval) \<times> state" where
  "request_catch tid error s =
     (let s1 = clearTimeout tid s in
      if instanceof_CueMapError error then (Inl error, s1)
      else (Inl (CueMapError (''Request failed: '' @ error_toString error)), s1))"

definition request ::
  "string \<Rightarrow> string \<Rightarrow> jsval \<Rightarrow> fetch_result \<Rightarrow> state \<Rightarrow> (thrown + jsval) \<times> state" where
  "request meth path b env s =
     (case setTimeout s of
        (tid, s0) \<Rightarrow>
          (case request_try meth path b tid env s0 of
             (Inl e, s1) \<Rightarrow> request_catch tid e s1
           | (Inr v, s1) \<Rightarrow> (Inr v, s1)))"

section \<open>The multipart upload\<close>

definition ingestFile_try ::
  "(string \<times> string) list \<Rightarrow> (string \<times> string) list \<Rightarrow> nat \<Rightarrow> fetch_result \<Rightarrow> state
     \<Rightarrow> (thrown + jsval) \<times> state" where
  "ingestFile_try hdrs formData tid env s =
     (case fetch \<lparr> http_method = ''POST'', req_url = url (self s) @ ''/ingest/file'',
                   headers = hdrs, body = FormDataBody formData \<rparr>
                 tid (timer_delay (timeout (self s))) env s of
        (Inl e, s1) \<Rightarrow> (Inl e, s1)
      | (Inr r, s1) \<Rightarrow>
          (let s2 = clearTimeout tid s1 in
           if \<not> ok r then
             (Inl (CueMapError (''Request failed: '' @ string_of_nat (status r))), s2)
           else (json r, s2)))"

definition ingestFile_catch :: "nat \<Rightarrow> thrown \<Rightarrow> state \<Rightarrow> (thrown + jsval) \<times> state" where
  "ingestFile_catch tid error s =
     (let s1 = clearTimeout tid s in
      (Inl (CueMapError (''Request failed: '' @ error_toString error)), s1))"

text \<open>
  \<^verbatim>\<open>ingestFile(file)\<close>: the form has the one field \<^verbatim>\<open>file\<close> (the file is kept as
  its bytes); \<^verbatim>\<open>delete headers['Content-Type']\<close> removes that key.
\<close>

definition ingestFile :: "string \<Rightarrow> fetch_result \<Rightarrow> state \<Rightarrow> (thrown + jsval) \<times> state" where
  "ingestFile file env s =
     (let formData = [(''file'', file)];
          hdrs = filter (\<lambda>kv. fst kv \<noteq> ''Content-Type'') (getHeaders s)
      in case setTimeout s of
           (tid, s0) \<Rightarrow>
             (case ingestFile_try hdrs formData tid env s0 of
                (Inl e, s1) \<Rightarrow> ingestFile_catch tid e s1
              | (Inr v, s1) \<Rightarrow> (Inr v, s1)))"

section \<open>Endpoint surface\<close>

definition strs :: "string list \<Rightarrow> jsval" where
  "strs xs = JArr (map JStr xs)"

text \<open>
  \<^verbatim>\<open>encodeURIComponent\<close> on a byte string: letters, digits and \<^verbatim>\<open>- _ . ! ~ * ' ( )\<close>
  stay, every other byte becomes \<^verbatim>\<open>%XX\<close> in upper-case hexadecimal.
\<close>

definition uri_unreserved :: "char \<Rightarrow> bool" where
  "uri_unreserved c =
     (c \<in> set (''ABCDEFGHIJKLMNOPQRSTUVWXYZabcdefghijklmnopqrstuvwxyz0123456789-_.!~*()'' @ [CHR 0x27]))"

definition hex_digit :: "nat \<Rightarrow> char" where
  "hex_digit n = ''0123456789ABCDEF'' ! (n mod 16)"

definition percent_encode :: "char \<Rightarrow> string" where
  "percent_encode c =
     [CHR ''%'', hex_digit ((of_char c :: nat) div 16), hex_digit ((of_char c :: nat) mod 16)]"

definition encodeURIComponent :: "string \<Rightarrow> string" where
  "encodeURIComponent s =
     concat (map (\<lambda>c. if uri_unreserved c then [c] else percent_encode c) s)"

text \<open>
  The pattern of the best-effort operations:
  \<^verbatim>\<open>try { await this.request(...); return true; } catch { return false; }\<close>.
\<close>

definition try_true_catch_false :: "(thrown + jsval) \<times> state \<Rightarrow> (thrown + jsval) \<times> state" where
  "try_true_catch_false r =
     (case r of
        (Inl e, s1) \<Rightarrow> (Inr (JBool False), s1)
      | (Inr v, s1) \<Rightarrow> (Inr (JBool True), s1))"

definition add ::
  "string \<Rightarrow> string list \<Rightarrow> (string \<times> jsval) list option \<Rightarrow> bool option
     \<Rightarrow> fetch_result \<Rightarrow> state \<Rightarrow> (thrown + jsval) \<times> state" where
  "add content cues metadata disableTemporalChunking env s =
     (case request ''POST'' ''/memories''
             (JObj [(''content'', JStr content),
                    (''cues'', strs cues),
                    (''metadata'', JObj (case metadata of None \<Rightarrow> [] | Some m \<Rightarrow> m)),
                    (''disable_temporal_chunking'',
                       JBool (param_default False disableTemporalChunking))])
             env s of
        (Inl e, s1) \<Rightarrow> (Inl e, s1)
      | (Inr response, s1) \<Rightarrow> (get_prop response ''id'', s1))"

text \<open>
  The payload of \<^verbatim>\<open>recall\<close>: six keys always, then \<^verbatim>\<open>cues\<close> when the argument is
  truthy (every array is), \<^verbatim>\<open>query_text\<close> when the text is truthy (given and not
  empty), \<^verbatim>\<open>min_intersection\<close> and \<^verbatim>\<open>projects\<close> when they are not \<^verbatim>\<open>undefined\<close>.
\<close>

definition recall_payload ::
  "string option \<Rightarrow> string list option \<Rightarrow> string list option \<Rightarrow> number option \<Rightarrow> bool option
     \<Rightarrow> number option \<Rightarrow> bool option \<Rightarrow> bool option \<Rightarrow> bool option \<Rightarrow> bool option
     \<Rightarrow> (string \<times> jsval) list" where
  "recall_payload queryText cues projects limit autoReinforce minIntersection explain
       disablePatternCompletion disableSalienceBias disableSystemsConsolidation =
     [(''limit'', JNumber (param_default (Num 10) limit)),
      (''auto_reinforce'', JBool (param_default False autoReinforce)),
      (''explain'', JBool (param_default False explain)),
      (''disable_pattern_completion'', JBool (param_default False disablePatternCompletion)),
      (''disable_salience_bias'', JBool (param_default False disableSalienceBias)),
      (''disable_systems_consolidation'',
         JBool (param_default False disableSystemsConsolidation))]
     @ (case cues of None \<Rightarrow> [] | Some c \<Rightarrow> if truthy (strs c) then [(''cues'', strs c)] else [])
     @ (case queryText of
          None \<Rightarrow> []
        | Some q \<Rightarrow> if truthy (JStr q) then [(''query_text'', JStr q)] else [])
     @ (case minIntersection of None \<Rightarrow> [] | Some m \<Rightarrow> [(''min_intersection'', JNumber m)])
     @ (case projects of None \<Rightarrow> [] | Some p \<Rightarrow> [(''projects'', strs p)])"

definition recall ::
  "string option \<Rightarrow> string list option \<Rightarrow> string list option \<Rightarrow> number option \<Rightarrow> bool option
     \<Rightarrow> number option \<Rightarrow> bool option \<Rightarrow> bool option \<Rightarrow> bool option \<Rightarrow> bool option
     \<Rightarrow> fetch_result \<Rightarrow> state \<Rightarrow> (thrown + jsval) \<times> state" where
  "recall queryText cues projects limit autoReinforce minIntersection explain
       disablePatternCompletion disableSalienceBias disableSystemsConsolidation env s =
     request ''POST'' ''/recall''
       (JObj (recall_payload queryText cues projects limit autoReinforce minIntersection explain
                disablePatternCompletion disableSalienceBias disableSystemsConsolidation))
       env s"

definition listProjects :: "fetch_result \<Rightarrow> state \<Rightarrow> (thrown + jsval) \<times> state" where
  "listProjects env s = request ''GET'' ''/projects'' JUndefined env s"

definition deleteProject :: "string \<Rightarrow> fetch_result \<Rightarrow> state \<Rightarrow> (thrown + jsval) \<times> state" where
  "deleteProject pid env s =
     try_true_catch_false (request ''DELETE'' (''/projects/'' @ pid) JUndefined env s)"

definition addAlias ::
  "string \<Rightarrow> string \<Rightarrow> number option \<Rightarrow> fetch_result \<Rightarrow> state \<Rightarrow> (thrown + jsval) \<times> state" where
  "addAlias from_cue to_cue weight env s =
     try_true_catch_false
       (request ''POST'' ''/aliases''
          (JObj [(''from'', JStr from_cue), (''to'', JStr to_cue),
                 (''weight'', JNumber (param_default (Num 1) weight))])
          env s)"

definition getAliases :: "string option \<Rightarrow> fetch_result \<Rightarrow> state \<Rightarrow> (thrown + jsval) \<times> state" where
  "getAliases cue env s =
     (let path = (case cue of
                    None \<Rightarrow> ''/aliases''
                  | Some c \<Rightarrow> if truthy (JStr c) then ''/aliases?cue='' @ encodeURIComponent c
                              else ''/aliases'')
      in request ''GET'' path JUndefined env s)"

definition mergeAliases ::
  "string list \<Rightarrow> string \<Rightarrow> fetch_result \<Rightarrow> state \<Rightarrow> (thrown + jsval) \<times> state" where
  "mergeAliases cues to_cue env s =
     try_true_catch_false
       (request ''POST'' ''/aliases/merge'' (JObj [(''cues'', strs cues), (''to'', JStr to_cue)])
          env s)"

definition reinforce ::
  "string \<Rightarrow> string list \<Rightarrow> fetch_result \<Rightarrow> state \<Rightarrow> (thrown + jsval) \<times> state" where
  "reinforce memoryId cues env s =
     try_true_catch_false
       (request ''PATCH'' (''/memories/'' @ memoryId @ ''/reinforce'') (JObj [(''cues'', strs cues)])
          env s)"

definition get :: "string \<Rightarrow> fetch_result \<Rightarrow> state \<Rightarrow> (thrown + jsval) \<times> state" where
  "get memoryId env s = request ''GET'' (''/memories/'' @ memoryId) JUndefined env s"

definition stats :: "fetch_result \<Rightarrow> state \<Rightarrow> (thrown + jsval) \<times> state" where
  "stats env s = request ''GET'' ''/stats'' JUndefined env s"

definition recallGrounded_payload ::
  "string \<Rightarrow> number option \<Rightarrow> number option \<Rightarrow> string list option \<Rightarrow> bool option \<Rightarrow> bool option
     \<Rightarrow> bool option \<Rightarrow> (string \<times> jsval) list" where
  "recallGrounded_payload query tokenBudget limit projects
       disablePatternCompletion disableSalienceBias disableSystemsConsolidation =
     [(''query_text'', JStr query),
      (''token_budget'', JNumber (param_default (Num 500) tokenBudget)),
      (''limit'', JNumber (param_default (Num 10) limit)),
      (''disable_pattern_completion'', JBool (param_default False disablePatternCompletion)),
      (''disable_salience_bias'', JBool (param_default False disableSalienceBias)),
      (''disable_systems_consolidation'',
         JBool (param_default False disableSystemsConsolidation))]
     @ (case projects of
          None \<Rightarrow> []
        | Some p \<Rightarrow> if truthy (strs p) then [(''projects'', strs p)] else [])"

definition recallGrounded ::
  "string \<Rightarrow> number option \<Rightarrow> number option \<Rightarrow> string list option \<Rightarrow> bool option \<Rightarrow> bool option
     \<Rightarrow> bool option \<Rightarrow> fetch_result \<Rightarrow> state \<Rightarrow> (thrown + jsval) \<times> state" where
  "recallGrounded query tokenBudget limit projects
       disablePatternCompletion disableSalienceBias disableSystemsConsolidation env s =
     request ''POST'' ''/recall/grounded''
       (JObj (recallGrounded_payload query tokenBudget limit projects
                disablePatternCompletion disableSalienceBias disableSystemsConsolidation))
       env s"

definition lexiconWire ::
  "string \<Rightarrow> string \<Rightarrow> fetch_result \<Rightarrow> state \<Rightarrow> (thrown + jsval) \<times> state" where
  "lexiconWire token canonical env s =
     request ''POST'' ''/lexicon/wire'' (JObj [(''token'', JStr token), (''canonical'', JStr canonical)])
       env s"

definition lexiconInspect :: "string \<Rightarrow> fetch_result \<Rightarrow> state \<Rightarrow> (thrown + jsval) \<times> state" where
  "lexiconInspect cue env s =
     (let encoded = encodeURIComponent cue
      in request ''GET'' (''/lexicon/inspect/'' @ encoded) JUndefined env s)"

definition lexiconGraph :: "fetch_result \<Rightarrow> state \<Rightarrow> (thrown + jsval) \<times> state" where
  "lexiconGraph env s = request ''GET'' ''/lexicon/graph'' JUndefined env s"

definition lexiconSynonyms :: "string \<Rightarrow> fetch_result \<Rightarrow> state \<Rightarrow> (thrown + jsval) \<times> state" where
  "lexiconSynonyms cue env s =
     (let encoded = encodeURIComponent cue
      in request ''GET'' (''/lexicon/synonyms/'' @ encoded) JUndefined env s)"

definition lexiconDelete :: "string \<Rightarrow> fetch_result \<Rightarrow> state \<Rightarrow> (thrown + jsval) \<times> state" where
  "lexiconDelete memoryId env s =
     try_true_catch_false (request ''DELETE'' (''/lexicon/entry/'' @ memoryId) JUndefined env s)"

definition ingestUrl :: "string \<Rightarrow> fetch_result \<Rightarrow> state \<Rightarrow> (thrown + jsval) \<times> state" where
  "ingestUrl u env s = request ''POST'' ''/ingest/url'' (JObj [(''url'', JStr u)]) env s"

definition ingestContent ::
  "string \<Rightarrow> string option \<Rightarrow> fetch_result \<Rightarrow> state \<Rightarrow> (thrown + jsval) \<times> state" where
  "ingestContent content filename env s =
     request ''POST'' ''/ingest/content''
       (JObj [(''content'', JStr content),
              (''filename'', JStr (param_default ''content.txt'' filename))])
       env s"

definition jobsStatus :: "fetch_result \<Rightarrow> state \<Rightarrow> (thrown + jsval) \<times> state" where
  "jobsStatus env s = request ''GET'' ''/jobs/status'' JUndefined env s"

section \<open>Grounded responses and the grounding retriever\<close>

record ExcludedItem =
  excluded_memory_id :: string
  excluded_score :: number
  reason :: string

record SelectedItem =
  memory_id :: string
  content :: string
  score :: number
  intersection_count :: number
  recency_component :: number
  reinforcement_component :: number
  match_integrity :: number
  source :: string
  timestamp :: string
  estimated_tokens :: number
  why :: string

record GroundingProof =
  trace_id :: string
  query_text :: string
  normalized_query :: "string list"
  expanded_cues :: "(string \<times> number) list"
  token_budget :: number
  selected :: "SelectedItem list"
  excluded_top :: "ExcludedItem list"

record RecallGroundedResponse =
  verified_context :: string
  grounding :: GroundingProof
  engine_latency_ms :: number

text \<open>
  A well-formed response as the JavaScript object that \<^verbatim>\<open>response.json()\<close> yields
  for it: every interface becomes an object with the interface's keys (the field
  \<open>grounding\<close> is the key \<^verbatim>\<open>proof\<close>, the two fields of an excluded item are
  \<^verbatim>\<open>memory_id\<close> and \<^verbatim>\<open>score\<close>).
\<close>

definition js_ExcludedItem :: "ExcludedItem \<Rightarrow> jsval" where
  "js_ExcludedItem x =
     JObj [(''memory_id'', JStr (excluded_memory_id x)),
           (''score'', JNumber (excluded_score x)),
           (''reason'', JStr (reason x))]"

definition js_SelectedItem :: "SelectedItem \<Rightarrow> jsval" where
  "js_SelectedItem x =
     JObj [(''memory_id'', JStr (memory_id x)),
           (''content'', JStr (content x)),
           (''score'', JNumber (score x)),
           (''intersection_count'', JNumber (intersection_count x)),
           (''recency_component'', JNumber (recency_component x)),
           (''reinforcement_component'', JNumber (reinforcement_component x)),
           (''match_integrity'', JNumber (match_integrity x)),
           (''source'', JStr (source x)),
           (''timestamp'', JStr (timestamp x)),
           (''estimated_tokens'', JNumber (estimated_tokens x)),
           (''why'', JStr (why x))]"

definition js_GroundingProof :: "GroundingProof \<Rightarrow> jsval" where
  "js_GroundingProof p =
     JObj [(''trace_id'', JStr (trace_id p)),
           (''query_text'', JStr (query_text p)),
           (''normalized_query'', strs (normalized_query p)),
           (''expanded_cues'',
              JArr (map (\<lambda>cw. JArr [JStr (fst cw), JNumber (snd cw)]) (expanded_cues p))),
           (''token_budget'', JNumber (token_budget p)),
           (''selected'', JArr (map js_SelectedItem (selected p))),
           (''excluded_top'', JArr (map js_ExcludedItem (excluded_top p)))]"

definition js_RecallGroundedResponse :: "RecallGroundedResponse \<Rightarrow> jsval" where
  "js_RecallGroundedResponse r =
     JObj [(''verified_context'', JStr (verified_context r)),
           (''proof'', js_GroundingProof (grounding r)),
           (''engine_latency_ms'', JNumber (engine_latency_ms r))]"

text \<open>
  The constructor of \<^verbatim>\<open>CueMapGroundingRetriever\<close>: a client is kept as it is,
  anything else is given to \<^verbatim>\<open>new CueMap\<close>. The result is the field \<^verbatim>\<open>client\<close>.
\<close>

datatype configOrClient = AClient CueMap | AConfig CueMapConfig | NoArgument

fun retriever_constructor :: "configOrClient \<Rightarrow> CueMap" where
  "retriever_constructor (AClient c) = c"
| "retriever_constructor (AConfig config) = constructor config"
| "retriever_constructor NoArgument = constructor empty_config"

text \<open>
  The object literal that \<^verbatim>\<open>retrieveGrounded\<close> returns, its three property reads in
  the order of the source.
\<close>

definition retrieveGrounded_return :: "jsval \<Rightarrow> thrown + jsval" where
  "retrieveGrounded_return response =
     (case get_prop response ''verified_context'' of
        Inl e \<Rightarrow> Inl e
      | Inr vc \<Rightarrow>
          (case get_prop response ''proof'' of
             Inl e \<Rightarrow> Inl e
           | Inr p \<Rightarrow>
               (case get_prop response ''proof'' of
                  Inl e \<Rightarrow> Inl e
                | Inr p2 \<Rightarrow>
                    (case get_prop p2 ''selected'' of
                       Inl e \<Rightarrow> Inl e
                     | Inr sel \<Rightarrow>
                         Inr (JObj [(''verified_context_block'', vc),
                                    (''grounding_proof'', p),
                                    (''selected_memories'', sel)])))))"

text \<open>
  \<^verbatim>\<open>retrieveGrounded\<close>, on a state whose client is the retriever's: its own defaults
  (500 and 10, \<^verbatim>\<open>false\<close>) are applied before the five arguments go to
  \<^verbatim>\<open>recallGrounded\<close>; the last two flags are not passed.
\<close>

definition retrieveGrounded ::
  "string \<Rightarrow> number option \<Rightarrow> number option \<Rightarrow> string list option \<Rightarrow> bool option
     \<Rightarrow> fetch_result \<Rightarrow> state \<Rightarrow> (thrown + jsval) \<times> state" where
  "retrieveGrounded queryText tokenBudget limit projects disablePatternCompletion env s =
     (case recallGrounded queryText
             (Some (param_default (Num 500) tokenBudget))
             (Some (param_default (Num 10) limit))
             projects
             (Some (param_default False disablePatternCompletion))
             None None env s of
        (Inl e, s1) \<Rightarrow> (Inl e, s1)
      | (Inr response, s1) \<Rightarrow> (retrieveGrounded_return response, s1))"

section \<open>Operations as data\<close>

text \<open>One constructor for each public method of the client, with its arguments.\<close>

datatype operation =
    Add string "string list" "(string \<times> jsval) list option" "bool option"
  | Recall "string option" "string list option" "string list option" "number option"
      "bool option" "number option" "bool option" "bool option" "bool option" "bool option"
  | ListProjects
  | DeleteProject string
  | AddAlias string string "number option"
  | GetAliases "string option"
  | MergeAliases "string list" string
  | Reinforce string "string list"
  | Get string
  | Stats
  | RecallGrounded string "number option" "number option" "string list option"
      "bool option" "bool option" "bool option"
  | LexiconWire string string
  | LexiconInspect string
  | LexiconGraph
  | LexiconSynonyms string
  | LexiconDelete string
  | IngestUrl string
  | IngestContent string "string option"
  | IngestFile string
  | JobsStatus

fun run :: "operation \<Rightarrow> fetch_result \<Rightarrow> state \<Rightarrow> (thrown + jsval) \<times> state" where
  "run (Add c cs m d) env s = add c cs m d env s"
| "run (Recall q cs ps l ar mi ex dpc dsb dsc) env s = recall q cs ps l ar mi ex dpc dsb dsc env s"
| "run ListProjects env s = listProjects env s"
| "run (DeleteProject p) env s = deleteProject p env s"
| "run (AddAlias f t w) env s = addAlias f t w env s"
| "run (GetAliases c) env s = getAliases c env s"
| "run (MergeAliases cs t) env s = mergeAliases cs t env s"
| "run (Reinforce m cs) env s = reinforce m cs env s"
| "run (Get m) env s = get m env s"
| "run Stats env s = stats env s"
| "run (RecallGrounded q tb l ps dpc dsb dsc) env s = recallGrounded q tb l ps dpc dsb dsc env s"
| "run (LexiconWire t c) env s = lexiconWire t c env s"
| "run (LexiconInspect c) env s = lexiconInspect c env s"
| "run LexiconGraph env s = lexiconGraph env s"
| "run (LexiconSynonyms c) env s = lexiconSynonyms c env s"
| "run (LexiconDelete m) env s = lexiconDelete m env s"
| "run (IngestUrl u) env s = ingestUrl u env s"
| "run (IngestContent c f) env s = ingestContent c f env s"
| "run (IngestFile f) env s = ingestFile f env s"
| "run JobsStatus env s = jobsStatus env s"

text \<open>The five best-effort operations.\<close>

fun best_effort :: "operation \<Rightarrow> bool" where
  "best_effort (Reinforce m cs) = True"
| "best_effort (DeleteProject p) = True"
| "best_effort (AddAlias f t w) = True"
| "best_effort (MergeAliases cs t) = True"
| "best_effort (LexiconDelete m) = True"
| "best_effort other = False"

text \<open>
  The method, path and body with which an operation calls \<^verbatim>\<open>request\<close>; the upload
  has none, it calls \<^verbatim>\<open>fetch\<close> itself.
\<close>

fun request_of :: "operation \<Rightarrow> (string \<times> string \<times> jsval) option" where
  "request_of (Add c cs m d) =
     Some (''POST'', ''/memories'',
           JObj [(''content'', JStr c), (''cues'', strs cs),
                 (''metadata'', JObj (case m of None \<Rightarrow> [] | Some kvs \<Rightarrow> kvs)),
                 (''disable_temporal_chunking'', JBool (param_default False d))])"
| "request_of (Recall q cs ps l ar mi ex dpc dsb dsc) =
     Some (''POST'', ''/recall'', JObj (recall_payload q cs ps l ar mi ex dpc dsb dsc))"
| "request_of ListProjects = Some (''GET'', ''/projects'', JUndefined)"
| "request_of (DeleteProject p) = Some (''DELETE'', ''/projects/'' @ p, JUndefined)"
| "request_of (AddAlias f t w) =
     Some (''POST'', ''/aliases'',
           JObj [(''from'', JStr f), (''to'', JStr t),
                 (''weight'', JNumber (param_default (Num 1) w))])"
| "request_of (GetAliases c) =
     Some (''GET'',
           (case c of
              None \<Rightarrow> ''/aliases''
            | Some cue \<Rightarrow> if truthy (JStr cue) then ''/aliases?cue='' @ encodeURIComponent cue
                          else ''/aliases''),
           JUndefined)"
| "request_of (MergeAliases cs t) =
     Some (''POST'', ''/aliases/merge'', JObj [(''cues'', strs cs), (''to'', JStr t)])"
| "request_of (Reinforce m cs) =
     Some (''PATCH'', ''/memories/'' @ m @ ''/reinforce'', JObj [(''cues'', strs cs)])"
| "request_of (Get m) = Some (''GET'', ''/memories/'' @ m, JUndefined)"
| "request_of Stats = Some (''GET'', ''/stats'', JUndefined)"
| "request_of (RecallGrounded q tb l ps dpc dsb dsc) =
     Some (''POST'', ''/recall/grounded'',
           JObj (recallGrounded_payload q tb l ps dpc dsb dsc))"
| "request_of (LexiconWire t c) =
     Some (''POST'', ''/lexicon/wire'', JObj [(''token'', JStr t), (''canonical'', JStr c)])"
| "request_of (LexiconInspect c) =
     Some (''GET'', ''/lexicon/inspect/'' @ encodeURIComponent c, JUndefined)"
| "request_of LexiconGraph = Some (''GET'', ''/lexicon/graph'', JUndefined)"
| "request_of (LexiconSynonyms c) =
     Some (''GET'', ''/lexicon/synonyms/'' @ encodeURIComponent c, JUndefined)"
| "request_of (LexiconDelete m) = Some (''DELETE'', ''/lexicon/entry/'' @ m, JUndefined)"
| "request_of (IngestUrl u) = Some (''POST'', ''/ingest/url'', JObj [(''url'', JStr u)])"
| "request_of (IngestContent c f) =
     Some (''POST'', ''/ingest/content'',
           JObj [(''content'', JStr c), (''filename'', JStr (param_default ''content.txt'' f))])"
| "request_of (IngestFile f) = None"
| "request_of JobsStatus = Some (''GET'', ''/jobs/status'', JUndefined)"

text \<open>A sequence of calls, each with what the remote side does for it.\<close>

fun run_all :: "(operation \<times> fetch_result) list \<Rightarrow> state \<Rightarrow> state" where
  "run_all [] s = s"
| "run_all (c # cs) s = run_all cs (snd (run (fst c) (snd c) s))"

text \<open>A client just constructed, in a runtime with no timer pending.\<close>

definition new_CueMap :: "CueMapConfig \<Rightarrow> state" where
  "new_CueMap config =
     \<lparr> self = constructor config, timers = [], next_timer = 0, outbox = [], aborted = [] \<rparr>"

text \<open>Timer identifiers are handed out in increasing order.\<close>

definition timers_fresh :: "state \<Rightarrow> bool" where
  "timers_fresh s = list_all (\<lambda>t. t < next_timer s) (timers s)"

section \<open>Notions used by the properties\<close>

text \<open>The configured time elapses before the remote side does anything.\<close>

fun timeout_elapses_first :: "real \<Rightarrow> fetch_result \<Rightarrow> bool" where
  "timeout_elapses_first d (Responded t r) = (d < t)"
| "timeout_elapses_first d (Rejected t e) = (d < t)"
| "timeout_elapses_first d NeverSettles = True"

text \<open>The argument of \<^verbatim>\<open>fetch\<close> in \<^verbatim>\<open>request\<close> and in \<^verbatim>\<open>ingestFile\<close>.\<close>

definition call_of_request :: "string \<Rightarrow> string \<Rightarrow> jsval \<Rightarrow> state \<Rightarrow> fetch_call" where
  "call_of_request m p b s =
     \<lparr> http_method = m, req_url = url (self s) @ p, headers = getHeaders s,
       body = (if truthy b then JsonBody b else NoBody) \<rparr>"

definition call_of_ingestFile :: "string \<Rightarrow> state \<Rightarrow> fetch_call" where
  "call_of_ingestFile file s =
     \<lparr> http_method = ''POST'', req_url = url (self s) @ ''/ingest/file'',
       headers = filter (\<lambda>kv. fst kv \<noteq> ''Content-Type'') (getHeaders s),
       body = FormDataBody [(''file'', file)] \<rparr>"

fun is_upload :: "operation \<Rightarrow> bool" where
  "is_upload (IngestFile f) = True"
| "is_upload other = False"

text \<open>
  The four failure kinds in the words of the specification, read off the cause of a
  failure: a 401 response is an authentication failure, any other non-success response
  a request failure, a rejection of the transport a transport failure, and the timer
  firing first a timeout. A success response has no failure kind.
\<close>

datatype failure_kind = Authentication | RequestFailed | TransportFailure | Timeout

fun spec_failure_kind :: "real \<Rightarrow> fetch_result \<Rightarrow> failure_kind option" where
  "spec_failure_kind d (Responded t r) =
     (if t < d then
        (if status r = 401 then Some Authentication
         else if \<not> ok r then Some RequestFailed else None)
      else Some Timeout)"
| "spec_failure_kind d (Rejected t e) = (if t < d then Some TransportFailure else Some Timeout)"
| "spec_failure_kind d NeverSettles = Some Timeout"

text \<open>The keys of a payload that name a disable flag.\<close>

definition disable_keys :: "(string \<times> jsval) list \<Rightarrow> string list" where
  "disable_keys payload = filter (\<lambda>k. take 8 k = ''disable_'') (map fst payload)"

section \<open>The transport: effects and results\<close>

lemmas transport_defs =
  request_def request_try_def request_catch_def ingestFile_def ingestFile_try_def
  ingestFile_catch_def setTimeout_def clearTimeout_def fetch_def timer_fires_def
  getHeaders_def

lemma request_self: "self (snd (request m p b env s)) = self s"
  by (cases env) (auto simp: transport_defs Let_def split: sum.splits)

lemma request_timers: "timers (snd (request m p b env s)) = removeAll (next_timer s) (timers s)"
  by (cases env) (auto simp: transport_defs Let_def split: sum.splits)

lemma request_next_timer: "next_timer (snd (request m p b env s)) = Suc (next_timer s)"
  by (cases env) (auto simp: transport_defs Let_def split: sum.splits)

lemma request_outbox: "outbox (snd (request m p b env s)) = outbox s @ [call_of_request m p b s]"
  by (cases env) (auto simp: transport_defs call_of_request_def Let_def split: sum.splits)

lemma request_timeout:
  "timeout_elapses_first (timer_delay (timeout (self s))) env \<Longrightarrow>
   fst (request m p b env s) = Inl (CueMapError (''Request failed: '' @ error_toString abort_error))
   \<and> aborted (snd (request m p b env s)) = aborted s @ [call_of_request m p b s]"
  by (cases env)
    (auto simp: transport_defs call_of_request_def abort_error_def Let_def split: sum.splits)

lemma request_error_type:
  "fst (request m p b env s) = Inl e \<Longrightarrow> instanceof_CueMapError e"
  by (cases env) (auto simp: transport_defs Let_def split: sum.splits if_splits)

lemma request_responded:
  "t < timer_delay (timeout (self s)) \<Longrightarrow>
   fst (request m p b (Responded t r) s) =
     (if \<not> ok r then
        (if status r = 401 then Inl (CueMapError ''Invalid API key'')
         else Inl (CueMapError (''Request failed: '' @ string_of_nat (status r))))
      else (case json r of
              Inl e \<Rightarrow> if instanceof_CueMapError e then Inl e
                       else Inl (CueMapError (''Request failed: '' @ error_toString e))
            | Inr v \<Rightarrow> Inr v))"
  by (auto simp: transport_defs Let_def split: sum.splits)

lemma request_rejected:
  "t < timer_delay (timeout (self s)) \<Longrightarrow>
   fst (request m p b (Rejected t e) s) =
     (if instanceof_CueMapError e then Inl e
      else Inl (CueMapError (''Request failed: '' @ error_toString e)))"
  by (auto simp: transport_defs Let_def split: sum.splits)

lemma ingestFile_self: "self (snd (ingestFile f env s)) = self s"
  by (cases env) (auto simp: transport_defs Let_def split: sum.splits)

lemma ingestFile_timers: "timers (snd (ingestFile f env s)) = removeAll (next_timer s) (timers s)"
  by (cases env) (auto simp: transport_defs Let_def split: sum.splits)

lemma ingestFile_next_timer: "next_timer (snd (ingestFile f env s)) = Suc (next_timer s)"
  by (cases env) (auto simp: transport_defs Let_def split: sum.splits)

lemma ingestFile_outbox: "outbox (snd (ingestFile f env s)) = outbox s @ [call_of_ingestFile f s]"
  by (cases env) (auto simp: transport_defs call_of_ingestFile_def Let_def split: sum.splits)

lemma ingestFile_timeout:
  "timeout_elapses_first (timer_delay (timeout (self s))) env \<Longrightarrow>
   fst (ingestFile f env s) = Inl (CueMapError (''Request failed: '' @ error_toString abort_error))
   \<and> aborted (snd (ingestFile f env s)) = aborted s @ [call_of_ingestFile f s]"
  by (cases env)
    (auto simp: transport_defs call_of_ingestFile_def abort_error_def Let_def split: sum.splits)

lemma ingestFile_error_type:
  "fst (ingestFile f env s) = Inl e \<Longrightarrow> instanceof_CueMapError e"
  by (cases env) (auto simp: transport_defs Let_def split: sum.splits if_splits)

lemma ingestFile_responded:
  "t < timer_delay (timeout (self s)) \<Longrightarrow>
   fst (ingestFile f (Responded t r) s) =
     (if \<not> ok r then
        Inl (CueMapError (''Request failed: '' @
               error_toString (CueMapError (''Request failed: '' @ string_of_nat (status r)))))
      else (case json r of
              Inl e \<Rightarrow> Inl (CueMapError (''Request failed: '' @ error_toString e))
            | Inr v \<Rightarrow> Inr v))"
  by (auto simp: transport_defs Let_def split: sum.splits)

section \<open>The operations: effects and results\<close>

lemmas operation_defs =
  add_def recall_def listProjects_def deleteProject_def addAlias_def getAliases_def
  mergeAliases_def reinforce_def get_def stats_def recallGrounded_def lexiconWire_def
  lexiconInspect_def lexiconGraph_def lexiconSynonyms_def lexiconDelete_def ingestUrl_def
  ingestContent_def jobsStatus_def

lemma run_best_effort:
  "best_effort op \<Longrightarrow> request_of op = Some (m, p, b) \<Longrightarrow>
   run op env s = try_true_catch_false (request m p b env s)"
  by (cases op) (auto simp: operation_defs)

lemma run_state:
  "request_of op = Some (m, p, b) \<Longrightarrow> snd (run op env s) = snd (request m p b env s)"
  by (cases op)
    (auto simp: operation_defs try_true_catch_false_def Let_def split: prod.splits sum.splits)

lemma run_propagates:
  "\<not> best_effort op \<Longrightarrow> request_of op = Some (m, p, b) \<Longrightarrow>
   fst (request m p b env s) = Inl e \<Longrightarrow> fst (run op env s) = Inl e"
  by (cases op) (auto simp: operation_defs Let_def split: prod.splits sum.splits)

lemma run_upload: "request_of op = None \<Longrightarrow> \<exists>f. op = IngestFile f"
  by (cases op) auto

lemma request_of_not_upload: "request_of op = Some x \<Longrightarrow> \<not> is_upload op"
  by (cases op) auto

lemma run_self: "self (snd (run op env s)) = self s"
proof (cases "request_of op")
  case None
  then obtain f where "op = IngestFile f" using run_upload by blast
  then show ?thesis by (simp add: ingestFile_self)
next
  case (Some a)
  then obtain m p b where "request_of op = Some (m, p, b)" by (cases a) auto
  then show ?thesis by (simp add: run_state request_self)
qed

lemma run_all_self: "self (run_all calls s) = self s"
  by (induction calls arbitrary: s) (auto simp: run_self)

lemma instanceof_CueMapError_iff: "instanceof_CueMapError e = (\<exists>msg. e = CueMapError msg)"
  by (cases e) auto

lemma request_fails:
  "spec_failure_kind (timer_delay (timeout (self s))) env = Some k \<Longrightarrow>
   \<exists>msg. fst (request m p b env s) = Inl (CueMapError msg)"
  by (cases env)
    (auto simp: transport_defs ok_def abort_error_def instanceof_CueMapError_iff Let_def
      split: sum.splits if_splits)

lemma ingestFile_fails:
  "spec_failure_kind (timer_delay (timeout (self s))) env = Some k \<Longrightarrow>
   \<exists>msg. fst (ingestFile f env s) = Inl (CueMapError msg)"
  by (cases env)
    (auto simp: transport_defs ok_def abort_error_def Let_def split: sum.splits if_splits)

lemma run_best_effort_result:
  assumes "best_effort op"
  shows "fst (run op env s) = Inr (JBool False) \<or> fst (run op env s) = Inr (JBool True)"
proof -
  obtain m p b where r: "request_of op = Some (m, p, b)"
    using assms by (cases op) auto
  show ?thesis
    unfolding run_best_effort [OF assms r]
    by (auto simp: try_true_catch_false_def split: prod.splits sum.splits)
qed

subsection \<open>Headers\<close>

lemma getHeaders_api_key:
  "map_of (getHeaders s) ''X-API-Key'' =
     (case apiKey (self s) of None \<Rightarrow> None | Some k \<Rightarrow> if k = [] then None else Some k)"
  by (simp add: getHeaders_def split: option.splits)

lemma getHeaders_project:
  "map_of (getHeaders s) ''X-Project-ID'' =
     (case projectId (self s) of None \<Rightarrow> None | Some k \<Rightarrow> if k = [] then None else Some k)"
  by (simp add: getHeaders_def split: option.splits)

lemma getHeaders_content_type:
  "map_of (getHeaders s) ''Content-Type'' = Some ''application/json''"
  by (simp add: getHeaders_def)

lemma map_of_without_key:
  "map_of (filter (\<lambda>kv. fst kv \<noteq> k) xs) k' = (if k' = k then None else map_of xs k')"
  by (induction xs) auto

subsection \<open>The payload of recall\<close>

lemma recall_outbox:
  "outbox (snd (recall q cs ps l ar mi ex dpc dsb dsc env s)) =
     outbox s @ [\<lparr> http_method = ''POST'', req_url = url (self s) @ ''/recall'',
                   headers = getHeaders s,
                   body = JsonBody (JObj (recall_payload q cs ps l ar mi ex dpc dsb dsc)) \<rparr>]"
  by (simp add: recall_def request_outbox call_of_request_def)

lemma recall_payload_query_text:
  "map_of (recall_payload q cs ps l ar mi ex dpc dsb dsc) ''query_text'' =
     (case q of None \<Rightarrow> None | Some t \<Rightarrow> if t = [] then None else Some (JStr t))"
  by (simp add: recall_payload_def strs_def split: option.splits)

lemma recall_payload_cues:
  "map_of (recall_payload q cs ps l ar mi ex dpc dsb dsc) ''cues'' =
     (case cs of None \<Rightarrow> None | Some c \<Rightarrow> Some (strs c))"
  by (simp add: recall_payload_def strs_def split: option.splits)

lemma recall_payload_flags:
  "map_of (recall_payload q cs ps l ar mi ex dpc dsb dsc) ''disable_pattern_completion'' =
     Some (JBool (case dpc of None \<Rightarrow> False | Some f \<Rightarrow> f))"
  "map_of (recall_payload q cs ps l ar mi ex dpc dsb dsc) ''disable_salience_bias'' =
     Some (JBool (case dsb of None \<Rightarrow> False | Some f \<Rightarrow> f))"
  "map_of (recall_payload q cs ps l ar mi ex dpc dsb dsc) ''disable_systems_consolidation'' =
     Some (JBool (case dsc of None \<Rightarrow> False | Some f \<Rightarrow> f))"
  by (simp_all add: recall_payload_def param_default_def)

lemma recall_payload_disable_keys:
  "disable_keys (recall_payload q cs ps l ar mi ex dpc dsb dsc) =
     [''disable_pattern_completion'', ''disable_salience_bias'',
      ''disable_systems_consolidation'']"
  by (simp add: recall_payload_def disable_keys_def strs_def split: option.splits)

subsection \<open>A default client\<close>

lemma default_delay: "timer_delay (timeout (self (new_CueMap empty_config))) = 30000"
  by (simp add: new_CueMap_def empty_config_def constructor_def or_else_num_def)

lemma fresh_not_pending: "timers_fresh s \<Longrightarrow> next_timer s \<notin> set (timers s)"
  by (auto simp: timers_fresh_def list_all_iff)

lemma new_CueMap_fresh: "timers_fresh (new_CueMap config)"
  by (simp add: timers_fresh_def new_CueMap_def)

text \<open>Both transports keep the timer identifiers in order.\<close>

lemma request_fresh: "timers_fresh s \<Longrightarrow> timers_fresh (snd (request m p b env s))"
  by (auto simp: timers_fresh_def list_all_iff request_timers request_next_timer)

lemma ingestFile_fresh: "timers_fresh s \<Longrightarrow> timers_fresh (snd (ingestFile f env s))"
  by (auto simp: timers_fresh_def list_all_iff ingestFile_timers ingestFile_next_timer)

section \<open>Status codes\<close>

text \<open>
  C1. A 401 response gives the authentication error with the fixed message whatever the
  body, and any other non-success status a request-failure error with the status code,
  on every request path, the multipart upload included. On the path of \<^verbatim>\<open>request\<close>
  this is \<open>request_responded\<close>. On the upload it fails: \<^verbatim>\<open>ingestFile\<close> has no test
  for 401, and its \<^verbatim>\<open>catch\<close> wraps the error its own \<^verbatim>\<open>try\<close> has just thrown. The
  same 401 response, on the upload and on \<^verbatim>\<open>request\<close>:
\<close>

theorem ingestFile_401_not_authentication_error:
  "fst (ingestFile ''data''
          (Responded 5 \<lparr> status = 401, json = Inr (JObj [(''error'', JStr ''bad key'')]) \<rparr>)
          (new_CueMap empty_config)) =
     Inl (CueMapError ''Request failed: CueMapError: Request failed: 401'')
   \<and> fst (request ''POST'' ''/ingest/url'' (JObj [(''url'', JStr ''http://a'')])
          (Responded 5 \<lparr> status = 401, json = Inr (JObj [(''error'', JStr ''bad key'')]) \<rparr>)
          (new_CueMap empty_config)) =
     Inl (CueMapError ''Invalid API key'')"
  by (simp add: ingestFile_responded request_responded default_delay ok_def
      string_of_nat.simps digit_char_def error_toString_parts_def)

section \<open>Timeouts and the error type\<close>

text \<open>
  C2, as amended. When the configured time elapses before the remote side responds, the
  request in flight is cancelled and the call fails with a \<^verbatim>\<open>CueMapError\<close> whose
  message is \<^verbatim>\<open>Request failed: \<close> followed by the text of the abort error, on the
  path of \<^verbatim>\<open>request\<close> and on the upload. Every failure of either path is a
  \<^verbatim>\<open>CueMapError\<close>, which carries a message and nothing else.
\<close>

theorem timeout_cancels_and_fails_with_CueMapError:
  assumes "timeout_elapses_first (timer_delay (timeout (self s))) env"
  shows "fst (request m p b env s) =
           Inl (CueMapError ''Request failed: AbortError: This operation was aborted'')
       \<and> aborted (snd (request m p b env s)) = aborted s @ [call_of_request m p b s]
       \<and> fst (ingestFile f env s) =
           Inl (CueMapError ''Request failed: AbortError: This operation was aborted'')
       \<and> aborted (snd (ingestFile f env s)) = aborted s @ [call_of_ingestFile f s]
       \<and> (\<forall>env' e. fst (request m p b env' s) = Inl e \<longrightarrow> instanceof_CueMapError e)
       \<and> (\<forall>env' e. fst (ingestFile f env' s) = Inl e \<longrightarrow> instanceof_CueMapError e)"
  using request_timeout [OF assms] ingestFile_timeout [OF assms]
    request_error_type ingestFile_error_type
  by (simp add: abort_error_def error_toString_parts_def)

theorem timeout_cancels_and_fails_with_CueMapError_witness:
  "timeout_elapses_first (timer_delay (timeout (self (new_CueMap empty_config))))
     (Responded 30001 \<lparr> status = 200, json = Inr JNull \<rparr>)
   \<and> fst (request ''GET'' ''/stats'' JUndefined
            (Responded 30001 \<lparr> status = 200, json = Inr JNull \<rparr>)
            (new_CueMap empty_config)) =
       Inl (CueMapError ''Request failed: AbortError: This operation was aborted'')
   \<and> aborted (snd (request ''GET'' ''/stats'' JUndefined
                     (Responded 30001 \<lparr> status = 200, json = Inr JNull \<rparr>)
                     (new_CueMap empty_config))) =
       [\<lparr> http_method = ''GET'', req_url = ''http://localhost:8080/stats'',
          headers = [(''Content-Type'', ''application/json'')], body = NoBody \<rparr>]"
proof -
  have h: "timeout_elapses_first (timer_delay (timeout (self (new_CueMap empty_config))))
             (Responded 30001 \<lparr> status = 200, json = Inr JNull \<rparr>)"
    by (simp add: default_delay)
  show ?thesis
    using h timeout_cancels_and_fails_with_CueMapError
      [OF h, of "''GET''" "''/stats''" JUndefined "''data''"]
    by (simp add: call_of_request_def getHeaders_def new_CueMap_def empty_config_def
        constructor_def or_else_str_def)
qed

text \<open>
  C2 as stated does not hold: a timeout and a transport fault are different kinds of
  failure, but the caller gets the same error for the timer firing and for a transport
  that rejects with the abort error before the time is up.
\<close>

theorem timeout_kind_counterexample:
  "spec_failure_kind 30000 NeverSettles = Some Timeout
   \<and> spec_failure_kind 30000 (Rejected 1 abort_error) = Some TransportFailure
   \<and> fst (request ''GET'' ''/stats'' JUndefined NeverSettles (new_CueMap empty_config)) =
     fst (request ''GET'' ''/stats'' JUndefined (Rejected 1 abort_error)
            (new_CueMap empty_config))"
  by (simp add: request_timeout request_rejected default_delay abort_error_def)

section \<open>Best-effort operations\<close>

text \<open>
  Whenever \<^verbatim>\<open>request\<close> fails, each of the best-effort operations \<^verbatim>\<open>reinforce\<close>,
  \<^verbatim>\<open>deleteProject\<close>, \<^verbatim>\<open>addAlias\<close>, \<^verbatim>\<open>mergeAliases\<close> and \<^verbatim>\<open>lexiconDelete\<close>
  returns \<^verbatim>\<open>false\<close>, and never an error; every other operation built on
  \<^verbatim>\<open>request\<close> fails with the error of \<^verbatim>\<open>request\<close> unchanged. Whatever the cause
  of a failure, an operation that is not best-effort fails with a \<^verbatim>\<open>CueMapError\<close>.
\<close>

lemma best_effort_false_request_errors_unchanged:
  "(request_of op = Some (m, p, b) \<and> fst (request m p b env s) = Inl e \<longrightarrow>
      fst (run op env s) = (if best_effort op then Inr (JBool False) else Inl e))
   \<and> (spec_failure_kind (timer_delay (timeout (self s))) env = Some k \<longrightarrow>
      (if best_effort op then fst (run op env s) = Inr (JBool False)
       else (\<exists>msg. fst (run op env s) = Inl (CueMapError msg))))
   \<and> (best_effort op \<longrightarrow>
      fst (run op env s) = Inr (JBool False) \<or> fst (run op env s) = Inr (JBool True))"
proof (intro conjI impI)
  assume a: "request_of op = Some (m, p, b) \<and> fst (request m p b env s) = Inl e"
  show "fst (run op env s) = (if best_effort op then Inr (JBool False) else Inl e)"
  proof (cases "best_effort op")
    case True
    with a show ?thesis
      by (auto simp: run_best_effort try_true_catch_false_def split: prod.splits sum.splits)
  next
    case False
    with a show ?thesis by (simp add: run_propagates)
  qed
next
  assume k: "spec_failure_kind (timer_delay (timeout (self s))) env = Some k"
  show "if best_effort op then fst (run op env s) = Inr (JBool False)
        else (\<exists>msg. fst (run op env s) = Inl (CueMapError msg))"
  proof (cases "request_of op")
    case None
    then obtain f where op: "op = IngestFile f" using run_upload by blast
    show ?thesis unfolding op using ingestFile_fails [OF k] by simp
  next
    case (Some a)
    then obtain m' p' b' where r: "request_of op = Some (m', p', b')" by (cases a) auto
    obtain msg where f: "fst (request m' p' b' env s) = Inl (CueMapError msg)"
      using request_fails [OF k] by blast
    show ?thesis
    proof (cases "best_effort op")
      case True
      with r f show ?thesis
        by (auto simp: run_best_effort try_true_catch_false_def split: prod.splits sum.splits)
    next
      case False
      with r f show ?thesis by (auto simp: run_propagates)
    qed
  qed
next
  assume "best_effort op"
  then show "fst (run op env s) = Inr (JBool False) \<or> fst (run op env s) = Inr (JBool True)"
    by (rule run_best_effort_result)
qed

text \<open>
  C3. On every failure of the underlying request the five best-effort operations give
  \<^verbatim>\<open>false\<close> and every other operation passes the client error to the caller
  unchanged. For the upload the second part fails: on a 500 response the \<^verbatim>\<open>try\<close>
  block of \<^verbatim>\<open>ingestFile\<close> throws the client error \<^verbatim>\<open>Request failed: 500\<close>, its
  \<^verbatim>\<open>catch\<close> block wraps that error again, and the caller gets another message. The same
  response through \<^verbatim>\<open>stats\<close>, which is built on \<^verbatim>\<open>request\<close>, reaches the caller
  unchanged.
\<close>

theorem ingestFile_rewraps_client_error:
  "fst (ingestFile_try
          (filter (\<lambda>kv. fst kv \<noteq> ''Content-Type'') (getHeaders (new_CueMap empty_config)))
          [(''file'', ''data'')]
          (fst (setTimeout (new_CueMap empty_config)))
          (Responded 5 \<lparr> status = 500, json = Inr (JObj [(''error'', JStr ''down'')]) \<rparr>)
          (snd (setTimeout (new_CueMap empty_config)))) =
     Inl (CueMapError ''Request failed: 500'')
   \<and> fst (run (IngestFile ''data'')
          (Responded 5 \<lparr> status = 500, json = Inr (JObj [(''error'', JStr ''down'')]) \<rparr>)
          (new_CueMap empty_config)) =
     Inl (CueMapError ''Request failed: CueMapError: Request failed: 500'')
   \<and> fst (run Stats
          (Responded 5 \<lparr> status = 500, json = Inr (JObj [(''error'', JStr ''down'')]) \<rparr>)
          (new_CueMap empty_config)) =
     Inl (CueMapError ''Request failed: 500'')"
proof -
  have t: "fst (ingestFile_try hdrs form tid
                  (Responded 5 \<lparr> status = 500, json = Inr v \<rparr>)
                  (snd (setTimeout (new_CueMap empty_config)))) =
           Inl (CueMapError ''Request failed: 500'')" for hdrs form tid v
    by (simp add: ingestFile_try_def fetch_def setTimeout_def clearTimeout_def ok_def
        new_CueMap_def empty_config_def constructor_def or_else_num_def
        string_of_nat.simps digit_char_def)
  show ?thesis
    by (simp add: t stats_def ingestFile_responded request_responded default_delay ok_def
        string_of_nat.simps digit_char_def error_toString_parts_def)
qed

section \<open>The cancellation timer\<close>

text \<open>
  C4. On both transports and on every exit path (success, error status, transport fault,
  timeout, a body that does not decode), the timer started by the call is no longer
  pending when the call returns, and no other timer has been touched.
\<close>

theorem timer_cleared_on_every_exit:
  assumes "timers_fresh s"
  shows "timers (snd (request m p b env s)) = timers s
       \<and> next_timer s \<notin> set (timers (snd (request m p b env s)))
       \<and> timers (snd (ingestFile f env s)) = timers s
       \<and> next_timer s \<notin> set (timers (snd (ingestFile f env s)))"
  using fresh_not_pending [OF assms] by (simp add: request_timers ingestFile_timers)

theorem timer_cleared_on_every_exit_witness:
  "timers_fresh (new_CueMap empty_config)
   \<and> timers (snd (request ''GET'' ''/stats'' JUndefined NeverSettles (new_CueMap empty_config))) = []
   \<and> timers (snd (ingestFile ''data'' (Responded 5 \<lparr> status = 500, json = Inr JNull \<rparr>)
                    (new_CueMap empty_config))) = []"
proof -
  have h: "timers_fresh (new_CueMap empty_config)"
    by (rule new_CueMap_fresh)
  show ?thesis
    using h
      timer_cleared_on_every_exit [OF h, of "''GET''" "''/stats''" JUndefined NeverSettles]
      timer_cleared_on_every_exit
        [OF h, of _ _ _ "Responded 5 \<lparr> status = 500, json = Inr JNull \<rparr>" "''data''"]
    by (simp add: new_CueMap_def)
qed

section \<open>Construction\<close>

text \<open>
  C5, as amended. The constructor takes the URL \<^verbatim>\<open>http://localhost:8080\<close> when none
  is given or the given one is the empty string, and the timeout 30000 when none is
  given or the given one is \<^verbatim>\<open>0\<close> or \<^verbatim>\<open>NaN\<close>; any other given URL or timeout is
  kept; the API key and the project are kept as given, absent when not given.
\<close>

theorem constructor_defaults_and_overrides:
  "url (constructor config) =
     (case config_url config of
        None \<Rightarrow> ''http://localhost:8080''
      | Some u \<Rightarrow> if u = [] then ''http://localhost:8080'' else u)
   \<and> timeout (constructor config) =
     (case config_timeout config of
        None \<Rightarrow> Num 30000
      | Some n \<Rightarrow> if n = Num 0 \<or> n = NaN then Num 30000 else n)
   \<and> apiKey (constructor config) = config_apiKey config
   \<and> projectId (constructor config) = config_projectId config"
proof -
  have "truthy (JNumber n) = (\<not> (n = Num 0 \<or> n = NaN))" for n
    by (cases n) auto
  then show ?thesis
    by (simp add: constructor_def or_else_str_def or_else_num_def split: option.splits)
qed

text \<open>
  C5 as stated does not hold: a timeout of \<^verbatim>\<open>0\<close> and an empty URL are given
  explicitly, and the defaults replace them.
\<close>

theorem constructor_falsy_counterexample:
  "timeout (constructor \<lparr> config_url = None, config_apiKey = None, config_projectId = None,
                           config_timeout = Some (Num 0) \<rparr>) = Num 30000
   \<and> timeout (constructor \<lparr> config_url = None, config_apiKey = None, config_projectId = None,
                           config_timeout = Some (Num 0) \<rparr>) \<noteq> Num 0
   \<and> url (constructor \<lparr> config_url = Some [], config_apiKey = None, config_projectId = None,
                       config_timeout = None \<rparr>) = ''http://localhost:8080''"
  by (simp add: constructor_def or_else_str_def or_else_num_def)

section \<open>Grounding\<close>

text \<open>
  C6. For every well-formed grounded response, the object that \<^verbatim>\<open>retrieveGrounded\<close>
  builds is a projection of it: \<^verbatim>\<open>verified_context_block\<close> is the response's
  \<^verbatim>\<open>verified_context\<close>, \<^verbatim>\<open>grounding_proof\<close> its \<^verbatim>\<open>proof\<close>, and
  \<^verbatim>\<open>selected_memories\<close> the \<^verbatim>\<open>selected\<close> of its proof, each value unchanged.
\<close>

theorem retrieveGrounded_pure_projection:
  "retrieveGrounded_return (js_RecallGroundedResponse r) =
     Inr (JObj [(''verified_context_block'', JStr (verified_context r)),
                (''grounding_proof'', js_GroundingProof (grounding r)),
                (''selected_memories'', JArr (map js_SelectedItem (selected (grounding r))))])"
  by (simp add: retrieveGrounded_return_def js_RecallGroundedResponse_def js_GroundingProof_def)

text \<open>The whole method, when the engine answers in time with such a response.\<close>

lemma retrieveGrounded_success:
  assumes "t < timer_delay (timeout (self s))" and "ok resp"
    and "json resp = Inr (js_RecallGroundedResponse r)"
  shows "fst (retrieveGrounded q tb l ps dpc (Responded t resp) s) =
           retrieveGrounded_return (js_RecallGroundedResponse r)"
proof -
  let ?call =
    "request ''POST'' ''/recall/grounded''
       (JObj (recallGrounded_payload q (Some (param_default (Num 500) tb))
                (Some (param_default (Num 10) l)) ps (Some (param_default False dpc))
                None None))
       (Responded t resp) s"
  have "fst ?call = Inr (js_RecallGroundedResponse r)"
    using assms by (simp add: request_responded)
  then obtain s1 where "?call = (Inr (js_RecallGroundedResponse r), s1)"
    by (cases ?call) auto
  then show ?thesis
    by (simp add: retrieveGrounded_def recallGrounded_def)
qed

section \<open>The body of recall\<close>

text \<open>
  C7, as amended. The call \<^verbatim>\<open>recall(undefined, ["meeting","john"], undefined, 10)\<close>
  sends to \<^verbatim>\<open>POST /recall\<close> a body with the cues, no \<^verbatim>\<open>query_text\<close> key and the
  limit 10. In every call of \<^verbatim>\<open>recall\<close> the body has three disable flags,
  \<^verbatim>\<open>disable_pattern_completion\<close>, \<^verbatim>\<open>disable_salience_bias\<close> and
  \<^verbatim>\<open>disable_systems_consolidation\<close>; each is \<^verbatim>\<open>false\<close> when its argument is not
  given and the argument itself otherwise.
\<close>

theorem recall_scenario_and_disable_flags:
  "outbox (snd (recall None (Some [''meeting'', ''john'']) None (Some (Num 10))
                  None None None None None None env s)) =
     outbox s @ [\<lparr> http_method = ''POST'', req_url = url (self s) @ ''/recall'',
                   headers = getHeaders s,
                   body = JsonBody (JObj
                     [(''limit'', JNumber (Num 10)),
                      (''auto_reinforce'', JBool False),
                      (''explain'', JBool False),
                      (''disable_pattern_completion'', JBool False),
                      (''disable_salience_bias'', JBool False),
                      (''disable_systems_consolidation'', JBool False),
                      (''cues'', JArr [JStr ''meeting'', JStr ''john''])]) \<rparr>]
   \<and> map_of (recall_payload q cs ps l ar mi ex dpc dsb dsc) ''disable_pattern_completion'' =
       Some (JBool (case dpc of None \<Rightarrow> False | Some f \<Rightarrow> f))
   \<and> map_of (recall_payload q cs ps l ar mi ex dpc dsb dsc) ''disable_salience_bias'' =
       Some (JBool (case dsb of None \<Rightarrow> False | Some f \<Rightarrow> f))
   \<and> map_of (recall_payload q cs ps l ar mi ex dpc dsb dsc) ''disable_systems_consolidation'' =
       Some (JBool (case dsc of None \<Rightarrow> False | Some f \<Rightarrow> f))
   \<and> disable_keys (recall_payload q cs ps l ar mi ex dpc dsb dsc) =
       [''disable_pattern_completion'', ''disable_salience_bias'',
        ''disable_systems_consolidation'']"
proof -
  have "recall_payload None (Some [''meeting'', ''john'']) None (Some (Num 10))
          None None None None None None =
        [(''limit'', JNumber (Num 10)),
         (''auto_reinforce'', JBool False),
         (''explain'', JBool False),
         (''disable_pattern_completion'', JBool False),
         (''disable_salience_bias'', JBool False),
         (''disable_systems_consolidation'', JBool False),
         (''cues'', JArr [JStr ''meeting'', JStr ''john''])]"
    by (simp add: recall_payload_def param_default_def strs_def)
  then show ?thesis
    by (simp add: recall_outbox recall_payload_flags recall_payload_disable_keys)
qed

text \<open>
  C7 as stated does not hold: the body of that call has three disable flags, not four;
  \<^verbatim>\<open>disable_temporal_chunking\<close>, the fourth flag of the client, is an argument of
  \<^verbatim>\<open>add\<close> and is not in the body of \<^verbatim>\<open>recall\<close>.
\<close>

theorem recall_four_flags_counterexample:
  "length (disable_keys (recall_payload None (Some [''meeting'', ''john'']) None (Some (Num 10))
                           None None None None None None)) = 3
   \<and> map_of (recall_payload None (Some [''meeting'', ''john'']) None (Some (Num 10))
                None None None None None None) ''disable_temporal_chunking'' = None"
  by (simp add: recall_payload_def disable_keys_def strs_def)

section \<open>Headers of every request\<close>

text \<open>
  C8. Every operation hands exactly one request to the transport. It has the header
  \<^verbatim>\<open>X-API-Key\<close> with the configured key when a key (a non-empty string) is
  configured and no such header otherwise, never an empty one; likewise
  \<^verbatim>\<open>X-Project-ID\<close>; and \<^verbatim>\<open>Content-Type: application/json\<close> unless the operation
  is the multipart upload, which has no \<^verbatim>\<open>Content-Type\<close> header. The upload keeps the
  timeout rule: when the time elapses first it is cancelled and fails.
\<close>

theorem headers_of_every_request:
  "\<exists>c. outbox (snd (run op env s)) = outbox s @ [c]
     \<and> map_of (headers c) ''X-API-Key'' =
         (case apiKey (self s) of None \<Rightarrow> None | Some k \<Rightarrow> if k = [] then None else Some k)
     \<and> map_of (headers c) ''X-Project-ID'' =
         (case projectId (self s) of None \<Rightarrow> None | Some p \<Rightarrow> if p = [] then None else Some p)
     \<and> map_of (headers c) ''Content-Type'' =
         (if is_upload op then None else Some ''application/json'')
     \<and> (is_upload op \<and> timeout_elapses_first (timer_delay (timeout (self s))) env \<longrightarrow>
          fst (run op env s) =
            Inl (CueMapError (''Request failed: '' @ error_toString abort_error))
          \<and> aborted (snd (run op env s)) = aborted s @ [c])"
proof (cases "request_of op")
  case None
  then obtain f where op: "op = IngestFile f" using run_upload by blast
  show ?thesis
    unfolding op
    by (rule exI [of _ "call_of_ingestFile f s"])
      (simp add: ingestFile_outbox ingestFile_timeout call_of_ingestFile_def map_of_without_key
        getHeaders_api_key getHeaders_project)
next
  case (Some a)
  then obtain m p b where r: "request_of op = Some (m, p, b)" by (cases a) auto
  have nu: "\<not> is_upload op" using r by (rule request_of_not_upload)
  show ?thesis
    by (rule exI [of _ "call_of_request m p b s"])
      (simp add: nu run_state [OF r] request_outbox call_of_request_def
        getHeaders_api_key getHeaders_project getHeaders_content_type)
qed

theorem headers_of_every_request_witness:
  "\<exists>c. outbox (snd (run (IngestFile ''data'') NeverSettles
                      (new_CueMap \<lparr> config_url = None, config_apiKey = Some ''secret'',
                                    config_projectId = None, config_timeout = None \<rparr>))) = [c]
     \<and> map_of (headers c) ''X-API-Key'' = Some ''secret''
     \<and> map_of (headers c) ''X-Project-ID'' = None
     \<and> map_of (headers c) ''Content-Type'' = None
     \<and> fst (run (IngestFile ''data'') NeverSettles
               (new_CueMap \<lparr> config_url = None, config_apiKey = Some ''secret'',
                             config_projectId = None, config_timeout = None \<rparr>)) =
         Inl (CueMapError ''Request failed: AbortError: This operation was aborted'')"
  using headers_of_every_request
    [of "IngestFile ''data''" NeverSettles
        "new_CueMap \<lparr> config_url = None, config_apiKey = Some ''secret'',
                      config_projectId = None, config_timeout = None \<rparr>"]
  by (auto simp: new_CueMap_def constructor_def or_else_num_def abort_error_def
      error_toString_parts_def)

section \<open>The client context\<close>

text \<open>
  C9. No operation changes the URL, the API key, the project or the timeout of the
  client: after any sequence of operations, whatever the remote side does, the client
  object is the one the constructor made.
\<close>

theorem context_never_mutated:
  "self (run_all calls s) = self s
   \<and> self (run_all calls (new_CueMap config)) = constructor config"
  by (simp add: run_all_self new_CueMap_def)

section \<open>No validation in recall\<close>

text \<open>
  C10. Whatever its arguments, \<^verbatim>\<open>recall\<close> hands one \<^verbatim>\<open>POST /recall\<close> request to the
  transport; the body has no \<^verbatim>\<open>query_text\<close> key when the text is \<^verbatim>\<open>undefined\<close> or
  empty, and no \<^verbatim>\<open>cues\<close> key when the cues are \<^verbatim>\<open>undefined\<close>; the result of the
  call is the result of the transport, so no error is raised before the network call.
\<close>

theorem recall_no_client_side_validation:
  "outbox (snd (recall q cs ps l ar mi ex dpc dsb dsc env s)) =
     outbox s @ [\<lparr> http_method = ''POST'', req_url = url (self s) @ ''/recall'',
                   headers = getHeaders s,
                   body = JsonBody (JObj (recall_payload q cs ps l ar mi ex dpc dsb dsc)) \<rparr>]
   \<and> map_of (recall_payload q cs ps l ar mi ex dpc dsb dsc) ''query_text'' =
       (case q of None \<Rightarrow> None | Some t \<Rightarrow> if t = [] then None else Some (JStr t))
   \<and> map_of (recall_payload q cs ps l ar mi ex dpc dsb dsc) ''cues'' =
       (case cs of None \<Rightarrow> None | Some c \<Rightarrow> Some (strs c))
   \<and> fst (recall q cs ps l ar mi ex dpc dsb dsc env s) =
       fst (request ''POST'' ''/recall''
              (JObj (recall_payload q cs ps l ar mi ex dpc dsb dsc)) env s)"
  using recall_outbox recall_payload_query_text recall_payload_cues
  by (simp add: recall_def)

end
